theory Spec2Isabelle
  imports Main
begin

section \<open>Calls with effects\<close>

text \<open>
  The library's methods take callbacks, and a JavaScript callback may throw, may return a
  value, and may do anything to its surroundings on the way. A call is therefore a function
  of the world: it yields \<open>Inl x\<close> when it throws \<open>x\<close> and \<open>Inr a\<close> when it
  returns \<open>a\<close>, next to the world it leaves behind. The world holds what was written to
  the console and, in \<open>state\<close>, everything else the callbacks can read and write.
\<close>

datatype 'x console_arg = Text string | Caught 'x

datatype 'x console_line = ConsoleLog "'x console_arg list" | ConsoleError "'x console_arg list"

record ('x, 'u) world =
  console :: "'x console_line list"
  state :: 'u

type_synonym ('x, 'u, 'a) call = "('x, 'u) world \<Rightarrow> ('x + 'a) \<times> ('x, 'u) world"

definition returns :: "'a \<Rightarrow> ('x, 'u, 'a) call" where
  "returns a w = (Inr a, w)"

definition throws :: "'x \<Rightarrow> ('x, 'u, 'a) call" where
  "throws x w = (Inl x, w)"

text \<open>\<open>and_then m k\<close> is \<open>const a = m; k a\<close>: an exception of \<open>m\<close> skips \<open>k\<close>.\<close>

definition and_then :: "('x, 'u, 'a) call \<Rightarrow> ('a \<Rightarrow> ('x, 'u, 'b) call) \<Rightarrow> ('x, 'u, 'b) call" where
  "and_then m k w = (case m w of (Inl x, w') \<Rightarrow> (Inl x, w') | (Inr a, w') \<Rightarrow> k a w')"

text \<open>\<open>try_catch m h\<close> is \<open>try { m } catch (error) { h error }\<close>.\<close>

definition try_catch :: "('x, 'u, 'a) call \<Rightarrow> ('x \<Rightarrow> ('x, 'u, 'a) call) \<Rightarrow> ('x, 'u, 'a) call" where
  "try_catch m h w = (case m w of (Inl x, w') \<Rightarrow> h x w' | (Inr a, w') \<Rightarrow> (Inr a, w'))"

definition console_log :: "'x console_arg list \<Rightarrow> ('x, 'u, unit) call" where
  "console_log args w = (Inr (), w\<lparr>console := console w @ [ConsoleLog args]\<rparr>)"

definition console_error :: "'x console_arg list \<Rightarrow> ('x, 'u, unit) call" where
  "console_error args w = (Inr (), w\<lparr>console := console w @ [ConsoleError args]\<rparr>)"

section \<open>EitherUnwrapError\<close>

record EitherUnwrapError =
  message :: string
  code :: string

definition DEFAULT_CODE :: string where
  "DEFAULT_CODE = ''EITHER_UNWRAP_ERROR''"

definition DEFAULT_MESSAGE :: string where
  "DEFAULT_MESSAGE = ''Either unwrap error''"

text \<open>The constructor's two parameters have defaults; \<open>None\<close> is an omitted argument.\<close>

definition new_EitherUnwrapError :: "string option \<Rightarrow> string option \<Rightarrow> EitherUnwrapError" where
  "new_EitherUnwrapError msg cd =
     \<lparr>message = (case msg of None \<Rightarrow> DEFAULT_MESSAGE | Some m \<Rightarrow> m),
      code = (case cd of None \<Rightarrow> DEFAULT_CODE | Some c \<Rightarrow> c)\<rparr>"

section \<open>Either, Left and Right\<close>

text \<open>
  The abstract class \<open>Either<L, R>\<close> has exactly the two subclasses \<open>Left\<close> (field
  \<open>error\<close>) and \<open>Right\<close> (field \<open>value\<close>). Each method below has one equation per
  subclass, which is that subclass's method body. The untagged unions \<open>L | E\<close> and
  \<open>U | L\<close> in the result types of \<open>filter\<close> and \<open>flatMap\<close> are one type \<open>'l\<close> here.
\<close>

datatype ('l, 'r) Either = Left 'l | Right 'r

definition left :: "'l \<Rightarrow> ('l, 'r) Either" where
  "left error = Left error"

definition right :: "'r \<Rightarrow> ('l, 'r) Either" where
  "right value = Right value"

fun Either_map :: "('l, 'r) Either \<Rightarrow> ('r \<Rightarrow> ('x, 'u, 't) call) \<Rightarrow> ('x, 'u, ('l, 't) Either) call" where
  "Either_map (Left error) mapper = returns (Left error)"
| "Either_map (Right value) mapper = and_then (mapper value) (\<lambda>t. returns (Right t))"

fun Either_mapError :: "('l, 'r) Either \<Rightarrow> ('l \<Rightarrow> ('x, 'u, 't) call) \<Rightarrow> ('x, 'u, ('t, 'r) Either) call" where
  "Either_mapError (Left error) fn = and_then (fn error) (\<lambda>t. returns (Left t))"
| "Either_mapError (Right value) fn = returns (Right value)"

fun Either_filter :: "('l, 'r) Either \<Rightarrow> ('r \<Rightarrow> ('x, 'u, bool) call) \<Rightarrow> ('r \<Rightarrow> ('x, 'u, 'l) call)
    \<Rightarrow> ('x, 'u, ('l, 'r) Either) call" where
  "Either_filter (Left error) predicate errorFactory = returns (Left error)"
| "Either_filter (Right value) predicate errorFactory =
     and_then (predicate value) (\<lambda>b.
       if b then returns (Right value)
       else and_then (errorFactory value) (\<lambda>e. returns (Left e)))"

fun Either_flatMap :: "('l, 'r) Either \<Rightarrow> ('r \<Rightarrow> ('x, 'u, ('l, 't) Either) call) \<Rightarrow> ('x, 'u, ('l, 't) Either) call" where
  "Either_flatMap (Left error) mapper = returns (Left error)"
| "Either_flatMap (Right value) mapper = mapper value"

fun Either_getOrElse :: "('l, 'r) Either \<Rightarrow> 'r \<Rightarrow> 'r" where
  "Either_getOrElse (Left error) defaultValue = defaultValue"
| "Either_getOrElse (Right value) defaultValue = value"

fun Either_getErrorOrElse :: "('l, 'r) Either \<Rightarrow> 'l \<Rightarrow> 'l" where
  "Either_getErrorOrElse (Left error) defaultError = error"
| "Either_getErrorOrElse (Right value) defaultError = defaultError"

fun Either_isRight :: "('l, 'r) Either \<Rightarrow> bool" where
  "Either_isRight (Left error) = False"
| "Either_isRight (Right value) = True"

fun Either_isLeft :: "('l, 'r) Either \<Rightarrow> bool" where
  "Either_isLeft (Left error) = True"
| "Either_isLeft (Right value) = False"

fun Either_unwrap :: "('l, 'r) Either \<Rightarrow> EitherUnwrapError + 'r" where
  "Either_unwrap (Left error) = Inl (new_EitherUnwrapError (Some ''Cannot unwrap Left instance'') None)"
| "Either_unwrap (Right value) = Inr value"

fun Either_unwrapError :: "('l, 'r) Either \<Rightarrow> EitherUnwrapError + 'l" where
  "Either_unwrapError (Left error) = Inr error"
| "Either_unwrapError (Right value) =
     Inl (new_EitherUnwrapError (Some ''Cannot unwrapError Right instance'') None)"

text \<open>
  \<open>tap\<close> and \<open>tapError\<close> run the callback inside \<open>try\<close>/\<open>catch\<close>; what the callback
  returns is dropped, what it throws goes to the console. Both end in \<open>return this\<close>.
\<close>

fun Either_tap :: "('l, 'r) Either \<Rightarrow> ('r \<Rightarrow> ('x, 'u, 'b) call) \<Rightarrow> ('x, 'u, ('l, 'r) Either) call" where
  "Either_tap (Left error) fn = returns (Left error)"
| "Either_tap (Right value) fn =
     and_then
       (try_catch (and_then (fn value) (\<lambda>_. returns ()))
          (\<lambda>error. and_then (console_log [Text ''[Either/Right] Error on tap''])
             (\<lambda>_. console_error [Caught error])))
       (\<lambda>_. returns (Right value))"

fun Either_tapError :: "('l, 'r) Either \<Rightarrow> ('l \<Rightarrow> ('x, 'u, 'b) call) \<Rightarrow> ('x, 'u, ('l, 'r) Either) call" where
  "Either_tapError (Left error) fn =
     and_then
       (try_catch (and_then (fn error) (\<lambda>_. returns ()))
          (\<lambda>err. and_then (console_log [Text ''[Either/Left] Error on tapError''])
             (\<lambda>_. console_error [Caught err])))
       (\<lambda>_. returns (Left error))"
| "Either_tapError (Right value) fn = returns (Right value)"

text \<open>A callback of \<open>tapBoth\<close> may be \<open>null\<close>, which is \<open>None\<close>.\<close>

fun Either_tapBoth :: "('l, 'r) Either \<Rightarrow> ('r \<Rightarrow> ('x, 'u, 'b) call) option
    \<Rightarrow> ('l \<Rightarrow> ('x, 'u, 'b) call) option \<Rightarrow> ('x, 'u, ('l, 'r) Either) call" where
  "Either_tapBoth (Left error) rightFn leftFn =
     (case leftFn of Some fn \<Rightarrow> Either_tapError (Left error) fn | None \<Rightarrow> returns (Left error))"
| "Either_tapBoth (Right value) rightFn leftFn =
     (case rightFn of Some fn \<Rightarrow> Either_tap (Right value) fn | None \<Rightarrow> returns (Right value))"

section \<open>JavaScript values and promises\<close>

text \<open>
  At run time the type parameters are erased, and \<open>AsyncEither\<close> tests its values with
  \<open>instanceof\<close>. A \<open>val\<close> is a JavaScript value that is not a thenable: a primitive, an
  error object, or an instance of \<open>Left\<close> or \<open>Right\<close>. A \<open>jsvalue\<close> is anything a
  callback may return or a constructor may receive: such a value, a native promise, or an
  \<open>AsyncEither\<close>, which is a thenable.
\<close>

datatype val =
    Undefined | Null | Bool bool | Num int | Str string
  | ErrorObj string
  | TypeError
  | UnwrapError EitherUnwrapError
  | EitherObj "(val, val) Either"

fun instanceof_Either :: "val \<Rightarrow> bool" where
  "instanceof_Either (EitherObj e) = True"
| "instanceof_Either _ = False"

text \<open>
  A promise is represented by the state it ends in: \<open>Pending\<close> is a promise that never
  settles. A reaction registered with \<open>then\<close> runs when the promise has settled; the order
  in which the host schedules the reactions of unrelated promises is not represented.
\<close>

datatype promise = Pending | Fulfilled val | Rejected val

datatype AsyncEither = AsyncEither (promise: promise)

datatype jsvalue = Value val | PromiseObj promise | AsyncEitherObj AsyncEither

type_synonym 'u js_world = "(val, 'u) world"

text \<open>
  Resolving a promise with \<open>x\<close>: a thenable is adopted, anything else fulfils. The \<open>then\<close>
  of an \<open>AsyncEither\<close> is \<open>this.promise.then(onfulfilled, onrejected)\<close>, so adopting one
  is adopting its \<open>promise\<close>.
\<close>

fun Promise_resolve :: "jsvalue \<Rightarrow> promise" where
  "Promise_resolve (Value v) = Fulfilled v"
| "Promise_resolve (PromiseObj p) = p"
| "Promise_resolve (AsyncEitherObj a) = promise a"

text \<open>The promise derived from a reaction: rejected with what it throws, resolved with what it returns.\<close>

definition settle :: "(val, 'u, jsvalue) call \<Rightarrow> 'u js_world \<Rightarrow> promise \<times> 'u js_world" where
  "settle reaction w =
     (case reaction w of (Inl x, w') \<Rightarrow> (Rejected x, w') | (Inr j, w') \<Rightarrow> (Promise_resolve j, w'))"

definition Promise_then :: "promise \<Rightarrow> (val \<Rightarrow> (val, 'u, jsvalue) call) option
    \<Rightarrow> (val \<Rightarrow> (val, 'u, jsvalue) call) option \<Rightarrow> 'u js_world \<Rightarrow> promise \<times> 'u js_world" where
  "Promise_then p onfulfilled onrejected w =
     (case p of
        Pending \<Rightarrow> (Pending, w)
      | Fulfilled v \<Rightarrow> (case onfulfilled of None \<Rightarrow> (Fulfilled v, w) | Some f \<Rightarrow> settle (f v) w)
      | Rejected r \<Rightarrow> (case onrejected of None \<Rightarrow> (Rejected r, w) | Some g \<Rightarrow> settle (g r) w))"

definition Promise_catch :: "promise \<Rightarrow> (val \<Rightarrow> (val, 'u, jsvalue) call) option
    \<Rightarrow> 'u js_world \<Rightarrow> promise \<times> 'u js_world" where
  "Promise_catch p onrejected = Promise_then p None onrejected"

subsection \<open>Async functions\<close>

text \<open>
  The body of an \<open>async\<close> function returns, throws, or stays suspended at an \<open>await\<close>
  of a promise that never settles. Calling the function never throws: it returns a promise,
  resolved with what the body returns and rejected with what it throws.
\<close>

datatype 'a step = Done 'a | Raised val | Suspended

type_synonym ('u, 'a) async_body = "'u js_world \<Rightarrow> 'a step \<times> 'u js_world"

definition areturn :: "'a \<Rightarrow> ('u, 'a) async_body" where
  "areturn a w = (Done a, w)"

definition abind :: "('u, 'a) async_body \<Rightarrow> ('a \<Rightarrow> ('u, 'b) async_body) \<Rightarrow> ('u, 'b) async_body" where
  "abind m k w =
     (case m w of (Done a, w') \<Rightarrow> k a w' | (Raised x, w') \<Rightarrow> (Raised x, w') | (Suspended, w') \<Rightarrow> (Suspended, w'))"

definition atry_catch :: "('u, 'a) async_body \<Rightarrow> (val \<Rightarrow> ('u, 'a) async_body) \<Rightarrow> ('u, 'a) async_body" where
  "atry_catch m h w =
     (case m w of (Done a, w') \<Rightarrow> (Done a, w') | (Raised x, w') \<Rightarrow> h x w' | (Suspended, w') \<Rightarrow> (Suspended, w'))"

text \<open>A synchronous call inside the body.\<close>

definition acall :: "(val, 'u, 'a) call \<Rightarrow> ('u, 'a) async_body" where
  "acall m w = (case m w of (Inl x, w') \<Rightarrow> (Raised x, w') | (Inr a, w') \<Rightarrow> (Done a, w'))"

definition await :: "jsvalue \<Rightarrow> ('u, val) async_body" where
  "await x w =
     (case Promise_resolve x of
        Pending \<Rightarrow> (Suspended, w) | Fulfilled v \<Rightarrow> (Done v, w) | Rejected r \<Rightarrow> (Raised r, w))"

definition run_async :: "('u, jsvalue) async_body \<Rightarrow> 'u js_world \<Rightarrow> promise \<times> 'u js_world" where
  "run_async body w =
     (case body w of
        (Done j, w') \<Rightarrow> (Promise_resolve j, w')
      | (Raised x, w') \<Rightarrow> (Rejected x, w')
      | (Suspended, w') \<Rightarrow> (Pending, w'))"

definition async :: "('u, jsvalue) async_body \<Rightarrow> (val, 'u, jsvalue) call" where
  "async body w = (case run_async body w of (p, w') \<Rightarrow> (Inr (PromiseObj p), w'))"

text \<open>
  A method call \<open>either.isLeft()\<close> on a value that is no \<open>Either\<close> instance is a TypeError;
  \<open>unwrap\<close> and \<open>unwrapError\<close> throw their EitherUnwrapError into the body.
\<close>

definition as_Either :: "val \<Rightarrow> ('u, (val, val) Either) async_body" where
  "as_Either v w = (case v of EitherObj e \<Rightarrow> (Done e, w) | _ \<Rightarrow> (Raised TypeError, w))"

definition unwrapped :: "EitherUnwrapError + 'a \<Rightarrow> ('u, 'a) async_body" where
  "unwrapped r w = (case r of Inl e \<Rightarrow> (Raised (UnwrapError e), w) | Inr a \<Rightarrow> (Done a, w))"

section \<open>AsyncEither\<close>

text \<open>
  The constructor:
  \<^verbatim>\<open>Promise.resolve(promiseOrEither)
    .then((result) => { if (result instanceof Either) return result; return right(result); })
    .catch((error) => left(error))\<close>
\<close>

definition new_AsyncEither :: "jsvalue \<Rightarrow> 'u js_world \<Rightarrow> AsyncEither \<times> 'u js_world" where
  "new_AsyncEither promiseOrEither w =
     (case Promise_then (Promise_resolve promiseOrEither)
             (Some (\<lambda>result. returns (Value (if instanceof_Either result then result
                                               else EitherObj (right result)))))
             None w of
        (p, w') \<Rightarrow>
          (case Promise_catch p (Some (\<lambda>error. returns (Value (EitherObj (left error))))) w' of
             (q, w'') \<Rightarrow> (AsyncEither q, w'')))"

definition AsyncEither_tryCatch :: "promise \<Rightarrow> 'u js_world \<Rightarrow> AsyncEither \<times> 'u js_world" where
  "AsyncEither_tryCatch p = new_AsyncEither (PromiseObj p)"

definition AsyncEither_fromPromise :: "promise \<Rightarrow> 'u js_world \<Rightarrow> AsyncEither \<times> 'u js_world" where
  "AsyncEither_fromPromise p = AsyncEither_tryCatch p"

definition AsyncEither_fromEither :: "(val, val) Either \<Rightarrow> 'u js_world \<Rightarrow> AsyncEither \<times> 'u js_world" where
  "AsyncEither_fromEither either = new_AsyncEither (Value (EitherObj either))"

definition asyncRight :: "val \<Rightarrow> 'u js_world \<Rightarrow> AsyncEither \<times> 'u js_world" where
  "asyncRight value = AsyncEither_fromEither (right value)"

definition asyncLeft :: "val \<Rightarrow> 'u js_world \<Rightarrow> AsyncEither \<times> 'u js_world" where
  "asyncLeft error = AsyncEither_fromEither (left error)"

definition AsyncEither_then :: "AsyncEither \<Rightarrow> (val \<Rightarrow> (val, 'u, jsvalue) call) option
    \<Rightarrow> (val \<Rightarrow> (val, 'u, jsvalue) call) option \<Rightarrow> 'u js_world \<Rightarrow> promise \<times> 'u js_world" where
  "AsyncEither_then this onfulfilled onrejected = Promise_then (promise this) onfulfilled onrejected"

definition AsyncEither_catch :: "AsyncEither \<Rightarrow> (val \<Rightarrow> (val, 'u, jsvalue) call) option
    \<Rightarrow> 'u js_world \<Rightarrow> promise \<times> 'u js_world" where
  "AsyncEither_catch this onrejected = Promise_catch (promise this) onrejected"

definition AsyncEither_chain :: "AsyncEither \<Rightarrow> (val \<Rightarrow> (val, 'u, jsvalue) call)
    \<Rightarrow> 'u js_world \<Rightarrow> AsyncEither \<times> 'u js_world" where
  "AsyncEither_chain this transform w =
     (case Promise_then (promise this) (Some transform) None w of
        (newPromiseResolvingToEither, w') \<Rightarrow> new_AsyncEither (PromiseObj newPromiseResolvingToEither) w')"

definition AsyncEither_map :: "AsyncEither \<Rightarrow> (val \<Rightarrow> (val, 'u, jsvalue) call)
    \<Rightarrow> 'u js_world \<Rightarrow> AsyncEither \<times> 'u js_world" where
  "AsyncEither_map this fn =
     AsyncEither_chain this (\<lambda>v. async
       (abind (as_Either v) (\<lambda>either.
          if Either_isLeft either
          then abind (unwrapped (Either_unwrapError either)) (\<lambda>e. areturn (Value (EitherObj (left e))))
          else abind (unwrapped (Either_unwrap either)) (\<lambda>value.
               abind (acall (fn value)) (\<lambda>j.
               abind (await j) (\<lambda>mappedValue.
               areturn (Value (EitherObj (right mappedValue)))))))))"

text \<open>
  In \<open>flatMap\<close> and \<open>recover\<close> the awaited \<open>result\<close> is what a promise was fulfilled
  with, so it is never a thenable: \<open>await\<close> has already adopted an \<open>AsyncEither\<close> through
  its \<open>then\<close>, and the branch \<open>result instanceof AsyncEither\<close> is not taken.
\<close>

definition AsyncEither_flatMap :: "AsyncEither \<Rightarrow> (val \<Rightarrow> (val, 'u, jsvalue) call)
    \<Rightarrow> 'u js_world \<Rightarrow> AsyncEither \<times> 'u js_world" where
  "AsyncEither_flatMap this fn =
     AsyncEither_chain this (\<lambda>v. async
       (abind (as_Either v) (\<lambda>either.
          if Either_isLeft either
          then abind (unwrapped (Either_unwrapError either)) (\<lambda>e. areturn (Value (EitherObj (left e))))
          else abind (unwrapped (Either_unwrap either)) (\<lambda>value.
               abind (acall (fn value)) (\<lambda>j.
               abind (await j) (\<lambda>result.
               areturn (Value result)))))))"

definition AsyncEither_mapError :: "AsyncEither \<Rightarrow> (val \<Rightarrow> (val, 'u, jsvalue) call)
    \<Rightarrow> 'u js_world \<Rightarrow> AsyncEither \<times> 'u js_world" where
  "AsyncEither_mapError this fn =
     AsyncEither_chain this (\<lambda>v. async
       (abind (as_Either v) (\<lambda>either.
          if Either_isRight either
          then abind (unwrapped (Either_unwrap either)) (\<lambda>value. areturn (Value (EitherObj (right value))))
          else abind (unwrapped (Either_unwrapError either)) (\<lambda>e.
               abind (acall (fn e)) (\<lambda>j.
               abind (await j) (\<lambda>mappedError.
               areturn (Value (EitherObj (left mappedError)))))))))"

definition AsyncEither_recover :: "AsyncEither \<Rightarrow> (val \<Rightarrow> (val, 'u, jsvalue) call)
    \<Rightarrow> 'u js_world \<Rightarrow> AsyncEither \<times> 'u js_world" where
  "AsyncEither_recover this fn =
     AsyncEither_chain this (\<lambda>v. async
       (abind (as_Either v) (\<lambda>either.
          if Either_isRight either
          then abind (unwrapped (Either_unwrap either)) (\<lambda>value. areturn (Value (EitherObj (right value))))
          else abind (acall (fn v)) (\<lambda>j.
               abind (await j) (\<lambda>result.
               areturn (Value result))))))"

text \<open>The default of \<open>getOrElse\<close> is a value or a function of no arguments.\<close>

datatype 'u default_arg = NotFunction val | Function "(val, 'u, jsvalue) call"

definition AsyncEither_getOrElse :: "AsyncEither \<Rightarrow> 'u default_arg \<Rightarrow> 'u js_world \<Rightarrow> promise \<times> 'u js_world" where
  "AsyncEither_getOrElse this defaultValue =
     run_async
       (abind (await (PromiseObj (promise this))) (\<lambda>v.
        abind (as_Either v) (\<lambda>either.
          if Either_isRight either
          then abind (unwrapped (Either_unwrap either)) (\<lambda>value. areturn (Value value))
          else (case defaultValue of Function f \<Rightarrow> acall f | NotFunction d \<Rightarrow> areturn (Value d)))))"

definition AsyncEither_getErrorOrElse :: "AsyncEither \<Rightarrow> 'u default_arg \<Rightarrow> 'u js_world \<Rightarrow> promise \<times> 'u js_world" where
  "AsyncEither_getErrorOrElse this defaultError =
     run_async
       (abind (await (PromiseObj (promise this))) (\<lambda>v.
        abind (as_Either v) (\<lambda>either.
          if Either_isLeft either
          then abind (unwrapped (Either_unwrapError either)) (\<lambda>e. areturn (Value e))
          else (case defaultError of Function f \<Rightarrow> acall f | NotFunction d \<Rightarrow> areturn (Value d)))))"

definition AsyncEither_tap :: "AsyncEither \<Rightarrow> (val \<Rightarrow> (val, 'u, jsvalue) call)
    \<Rightarrow> 'u js_world \<Rightarrow> AsyncEither \<times> 'u js_world" where
  "AsyncEither_tap this fn =
     AsyncEither_chain this (\<lambda>v. async
       (abind (as_Either v) (\<lambda>either.
          if \<not> Either_isRight either then areturn (Value v)
          else abind
                 (atry_catch
                    (abind (unwrapped (Either_unwrap either)) (\<lambda>value.
                     abind (acall (fn value)) (\<lambda>j.
                     abind (await j) (\<lambda>_. areturn ()))))
                    (\<lambda>error. acall (console_error [Text ''An error occurred at tap'', Caught error])))
                 (\<lambda>_. areturn (Value v)))))"

definition AsyncEither_tapError :: "AsyncEither \<Rightarrow> (val \<Rightarrow> (val, 'u, jsvalue) call)
    \<Rightarrow> 'u js_world \<Rightarrow> AsyncEither \<times> 'u js_world" where
  "AsyncEither_tapError this fn =
     AsyncEither_chain this (\<lambda>v. async
       (abind (as_Either v) (\<lambda>either.
          if \<not> Either_isLeft either then areturn (Value v)
          else abind
                 (atry_catch
                    (abind (unwrapped (Either_unwrapError either)) (\<lambda>e.
                     abind (acall (fn e)) (\<lambda>j.
                     abind (await j) (\<lambda>_. areturn ()))))
                    (\<lambda>error. acall (console_error [Text ''An error occurred at tapError'', Caught error])))
                 (\<lambda>_. areturn (Value v)))))"

text \<open>A call that returns an \<open>AsyncEither\<close> and cannot throw, inside an async body.\<close>

definition anew :: "('u js_world \<Rightarrow> AsyncEither \<times> 'u js_world) \<Rightarrow> ('u, jsvalue) async_body" where
  "anew m w = (case m w of (a, w') \<Rightarrow> (Done (AsyncEitherObj a), w'))"

definition AsyncEither_tapBoth :: "AsyncEither \<Rightarrow> (val \<Rightarrow> (val, 'u, jsvalue) call) option
    \<Rightarrow> (val \<Rightarrow> (val, 'u, jsvalue) call) option \<Rightarrow> 'u js_world \<Rightarrow> AsyncEither \<times> 'u js_world" where
  "AsyncEither_tapBoth this rightFn leftFn w =
     (case Promise_then (promise this)
             (Some (\<lambda>v. async
                (abind (as_Either v) (\<lambda>either.
                 abind
                   (case (Either_isRight either, rightFn) of
                      (True, Some fn) \<Rightarrow>
                        abind (anew (AsyncEither_tap this fn)) (\<lambda>t. abind (await t) (\<lambda>_. areturn ()))
                    | _ \<Rightarrow>
                        (case (Either_isLeft either, leftFn) of
                           (True, Some fn) \<Rightarrow>
                             abind (anew (AsyncEither_tapError this fn)) (\<lambda>t. abind (await t) (\<lambda>_. areturn ()))
                         | _ \<Rightarrow> areturn ()))
                   (\<lambda>_. areturn (Value v))))))
             None w of
        (p, w') \<Rightarrow> new_AsyncEither (PromiseObj p) w')"

text \<open>An \<open>AsyncEither\<close> whose promise is fulfilled with the Either \<open>e\<close>.\<close>

abbreviation settled :: "(val, val) Either \<Rightarrow> AsyncEither" where
  "settled e \<equiv> AsyncEither (Fulfilled (EitherObj e))"

text \<open>The reaction \<open>(e) => e.unwrapError()\<close>, as passed to \<open>then\<close>.\<close>

definition unwrapError_reaction :: "val \<Rightarrow> (val, 'u, jsvalue) call" where
  "unwrapError_reaction v =
     (case v of
        EitherObj e \<Rightarrow>
          (case Either_unwrapError e of Inl u \<Rightarrow> throws (UnwrapError u) | Inr x \<Rightarrow> returns (Value x))
      | _ \<Rightarrow> throws TypeError)"

section \<open>Instances and identity\<close>















definition quiet :: "('x, unit) world" where
  "quiet = \<lparr>console = [], state = ()\<rparr>"

section \<open>Extraction\<close>

text \<open>
  C2. \<open>right(v).unwrap()\<close> returns \<open>v\<close> and \<open>left(e).unwrapError()\<close> returns \<open>e\<close>;
  \<open>left(e).unwrap()\<close> throws an EitherUnwrapError whose message is
  "Cannot unwrap Left instance", and \<open>right(v).unwrapError()\<close> throws one whose message is
  "Cannot unwrapError Right instance". Both carry the default code.
\<close>

theorem unwrap_contract:
  "Either_unwrap (right v) = Inr v
   \<and> Either_unwrapError (left e) = Inr e
   \<and> Either_unwrap (left e) =
       Inl \<lparr>message = ''Cannot unwrap Left instance'', code = ''EITHER_UNWRAP_ERROR''\<rparr>
   \<and> Either_unwrapError (right v) =
       Inl \<lparr>message = ''Cannot unwrapError Right instance'', code = ''EITHER_UNWRAP_ERROR''\<rparr>"
  by (simp add: left_def right_def new_EitherUnwrapError_def DEFAULT_CODE_def)

section \<open>Laws of the calls\<close>

lemma and_then_returns [simp]: "and_then (returns a) k = k a"
  by (rule ext) (simp add: and_then_def returns_def)

lemma and_then_returns_right [simp]: "and_then m returns = m"
  by (rule ext) (simp add: and_then_def returns_def split: prod.splits sum.splits)

lemma and_then_assoc: "and_then (and_then m k) h = and_then m (\<lambda>a. and_then (k a) h)"
  by (rule ext) (simp add: and_then_def split: prod.splits sum.splits)

section \<open>The synchronous Either\<close>

text \<open>
  C3. The functor laws of \<open>map\<close>, for both variants. Mapping the identity returns an
  Either equal to the receiver; mapping \<open>f\<close> and then \<open>g\<close> is mapping the function that
  applies \<open>f\<close> then \<open>g\<close>. The first two equations hold for callbacks with effects (both
  sides throw the same and leave the same world), the third is the law for pure \<open>p\<close>, \<open>q\<close>.
\<close>

theorem map_functor_laws:
  "Either_map x returns = returns x
   \<and> and_then (Either_map x f) (\<lambda>y. Either_map y g) = Either_map x (\<lambda>v. and_then (f v) g)
   \<and> and_then (Either_map x (\<lambda>v. returns (p v))) (\<lambda>y. Either_map y (\<lambda>v. returns (q v)))
       = Either_map x (\<lambda>v. returns (q (p v)))"
  by (cases x) (simp_all add: and_then_assoc)

text \<open>
  C5. \<open>right(v).filter(p, ef)\<close> is \<open>Right(v)\<close> when \<open>p(v)\<close> is true and
  \<open>Left(ef(v))\<close> when it is false; \<open>left(e).filter(p, ef)\<close> is \<open>Left(e)\<close> whatever the
  predicate and the factory are, and the world is as before, so neither was called.
\<close>

theorem filter_contract:
  "(predicate v w = (Inr True, w1) \<longrightarrow>
      Either_filter (right v) predicate errorFactory w = (Inr (Right v), w1))
   \<and> (predicate v w = (Inr False, w1) \<and> errorFactory v w1 = (Inr e', w2) \<longrightarrow>
      Either_filter (right v) predicate errorFactory w = (Inr (Left e'), w2))
   \<and> Either_filter (right v) (\<lambda>x. returns (p x)) (\<lambda>x. returns (ef x)) w
       = (Inr (if p v then Right v else Left (ef v)), w)
   \<and> Either_filter (left e) predicate errorFactory w = (Inr (Left e), w)"
  by (simp add: left_def right_def returns_def and_then_def)

theorem filter_contract_witness:
  "Either_filter (right (5::int)) (\<lambda>x. returns (0 < x)) (\<lambda>x. returns ''not positive'')
       (quiet :: (unit, unit) world)
     = (Inr (Right 5), quiet)
   \<and> Either_filter (right (-1::int)) (\<lambda>x. returns (0 < x)) (\<lambda>x. returns ''not positive'')
       (quiet :: (unit, unit) world)
     = (Inr (Left ''not positive''), quiet)"
  using filter_contract [where predicate = "\<lambda>x. returns (0 < x)" and v = "5::int"
      and w = "quiet :: (unit, unit) world" and ?w1.0 = quiet
      and errorFactory = "\<lambda>x. returns ''not positive''"
      and e' = "''not positive''" and ?w2.0 = quiet
      and p = "\<lambda>x. 0 < x" and ef = "\<lambda>x. ''not positive''" and e = "[]"]
    filter_contract [where predicate = "\<lambda>x. returns (0 < x)" and v = "-1::int"
      and w = "quiet :: (unit, unit) world" and ?w1.0 = quiet
      and errorFactory = "\<lambda>x. returns ''not positive''"
      and e' = "''not positive''" and ?w2.0 = quiet
      and p = "\<lambda>x. 0 < x" and ef = "\<lambda>x. ''not positive''" and e = "[]"]
  by (simp add: returns_def)

text \<open>
  C6. \<open>left(e).map(f)\<close> is a Left holding \<open>e\<close>, and so is \<open>left(e).flatMap(f)\<close>; in both
  the world is as before for every \<open>f\<close>, so \<open>f\<close> was not called. \<open>right(v).flatMap(f)\<close>
  is the call \<open>f(v)\<close> itself: its Either, its exception, its effects.
\<close>

theorem left_absorbs:
  "Either_map (left e) f w = (Inr (Left e), w)
   \<and> Either_flatMap (left e) g w = (Inr (Left e), w)
   \<and> Either_flatMap (right v) g = g v"
  by (simp add: left_def right_def returns_def)

section \<open>What the constructor and the chain settle to\<close>

lemma new_AsyncEither_settles:
  "new_AsyncEither x w =
     (AsyncEither (case Promise_resolve x of
                     Pending \<Rightarrow> Pending
                   | Fulfilled v \<Rightarrow> Fulfilled (if instanceof_Either v then v else EitherObj (Right v))
                   | Rejected r \<Rightarrow> Fulfilled (EitherObj (Left r))), w)"
  by (simp add: new_AsyncEither_def Promise_then_def Promise_catch_def settle_def returns_def
      left_def right_def split: promise.splits)

lemma new_AsyncEither_not_rejected: "promise (fst (new_AsyncEither x w)) \<noteq> Rejected r"
  by (simp add: new_AsyncEither_settles split: promise.splits)

lemma chain_not_rejected: "promise (fst (AsyncEither_chain this transform w)) \<noteq> Rejected r"
  by (simp add: AsyncEither_chain_def new_AsyncEither_not_rejected split: prod.splits)

lemma chain_async:
  "AsyncEither_chain this (\<lambda>v. async (body v)) w =
     (case promise this of
        Pending \<Rightarrow> (AsyncEither Pending, w)
      | Rejected r \<Rightarrow> (settled (Left r), w)
      | Fulfilled v \<Rightarrow> (case run_async (body v) w of (p, w') \<Rightarrow> new_AsyncEither (PromiseObj p) w'))"
  by (simp add: AsyncEither_chain_def Promise_then_def settle_def async_def new_AsyncEither_settles
      split: promise.splits prod.splits)

lemmas body_defs = run_async_def abind_def areturn_def acall_def await_def atry_catch_def
  as_Either_def unwrapped_def anew_def

lemma asyncRight_settles: "asyncRight v w = (settled (Right v), w)"
  by (simp add: asyncRight_def AsyncEither_fromEither_def new_AsyncEither_settles right_def)

lemma asyncLeft_settles: "asyncLeft e w = (settled (Left e), w)"
  by (simp add: asyncLeft_def AsyncEither_fromEither_def new_AsyncEither_settles left_def)

lemma map_Left: "AsyncEither_map (settled (Left e)) fn w = (settled (Left e), w)"
  by (simp add: AsyncEither_map_def chain_async body_defs new_AsyncEither_settles left_def)

lemma flatMap_Left: "AsyncEither_flatMap (settled (Left e)) fn w = (settled (Left e), w)"
  by (simp add: AsyncEither_flatMap_def chain_async body_defs new_AsyncEither_settles left_def)

lemma map_Right:
  "AsyncEither_map (settled (Right v)) fn w =
     (case fn v w of
        (Inl x, w') \<Rightarrow> (settled (Left x), w')
      | (Inr j, w') \<Rightarrow>
          (AsyncEither (case Promise_resolve j of
                          Pending \<Rightarrow> Pending
                        | Fulfilled y \<Rightarrow> Fulfilled (EitherObj (Right y))
                        | Rejected r \<Rightarrow> Fulfilled (EitherObj (Left r))), w'))"
  by (simp add: AsyncEither_map_def chain_async body_defs new_AsyncEither_settles right_def
      split: prod.splits sum.splits promise.splits)

lemma flatMap_Right:
  "AsyncEither_flatMap (settled (Right v)) fn w =
     (case fn v w of
        (Inl x, w') \<Rightarrow> (settled (Left x), w')
      | (Inr j, w') \<Rightarrow>
          (AsyncEither (case Promise_resolve j of
                          Pending \<Rightarrow> Pending
                        | Fulfilled y \<Rightarrow> Fulfilled (if instanceof_Either y then y else EitherObj (Right y))
                        | Rejected r \<Rightarrow> Fulfilled (EitherObj (Left r))), w'))"
  by (simp add: AsyncEither_flatMap_def chain_async body_defs new_AsyncEither_settles right_def
      split: prod.splits sum.splits promise.splits)

lemma tap_Right:
  "AsyncEither_tap (settled (Right v)) fn w =
     (case fn v w of
        (Inl x, w') \<Rightarrow>
          (settled (Right v),
           w'\<lparr>console := console w' @ [ConsoleError [Text ''An error occurred at tap'', Caught x]]\<rparr>)
      | (Inr j, w') \<Rightarrow>
          (case Promise_resolve j of
             Pending \<Rightarrow> (AsyncEither Pending, w')
           | Fulfilled y \<Rightarrow> (settled (Right v), w')
           | Rejected r \<Rightarrow>
               (settled (Right v),
                w'\<lparr>console := console w' @ [ConsoleError [Text ''An error occurred at tap'', Caught r]]\<rparr>)))"
  by (simp add: AsyncEither_tap_def chain_async body_defs new_AsyncEither_settles console_error_def
      split: prod.splits sum.splits promise.splits)

lemma tap_Left: "AsyncEither_tap (settled (Left e)) fn w = (settled (Left e), w)"
  by (simp add: AsyncEither_tap_def chain_async body_defs new_AsyncEither_settles)

lemma tapError_Left:
  "AsyncEither_tapError (settled (Left e)) fn w =
     (case fn e w of
        (Inl x, w') \<Rightarrow>
          (settled (Left e),
           w'\<lparr>console := console w' @ [ConsoleError [Text ''An error occurred at tapError'', Caught x]]\<rparr>)
      | (Inr j, w') \<Rightarrow>
          (case Promise_resolve j of
             Pending \<Rightarrow> (AsyncEither Pending, w')
           | Fulfilled y \<Rightarrow> (settled (Left e), w')
           | Rejected r \<Rightarrow>
               (settled (Left e),
                w'\<lparr>console := console w' @ [ConsoleError [Text ''An error occurred at tapError'', Caught r]]\<rparr>)))"
  by (simp add: AsyncEither_tapError_def chain_async body_defs new_AsyncEither_settles console_error_def
      split: prod.splits sum.splits promise.splits)

lemma tapError_Right: "AsyncEither_tapError (settled (Right v)) fn w = (settled (Right v), w)"
  by (simp add: AsyncEither_tapError_def chain_async body_defs new_AsyncEither_settles)

lemma tapBoth_Right:
  "AsyncEither_tapBoth (settled (Right v)) rightFn leftFn w =
     (case rightFn of
        None \<Rightarrow> (settled (Right v), w)
      | Some fn \<Rightarrow> AsyncEither_tap (settled (Right v)) fn w)"
  by (simp add: AsyncEither_tapBoth_def Promise_then_def settle_def async_def tap_Right
      body_defs new_AsyncEither_settles split: option.splits prod.splits sum.splits promise.splits)

lemma tapBoth_Left:
  "AsyncEither_tapBoth (settled (Left e)) rightFn leftFn w =
     (case leftFn of
        None \<Rightarrow> (settled (Left e), w)
      | Some fn \<Rightarrow> AsyncEither_tapError (settled (Left e)) fn w)"
  by (simp add: AsyncEither_tapBoth_def Promise_then_def settle_def async_def tapError_Left
      body_defs new_AsyncEither_settles split: option.splits prod.splits sum.splits promise.splits)

section \<open>Capture of rejections\<close>

text \<open>
  C1. The promise of an \<open>AsyncEither\<close> built by the constructor, by \<open>tryCatch\<close> or by
  \<open>fromPromise\<close> is never rejected, whatever it was built from; built from a promise
  rejected with \<open>e\<close> it is fulfilled with \<open>Left e\<close>. The results of \<open>map\<close>,
  \<open>flatMap\<close> and the other combinators are never rejected either, for every receiver and
  every callback: a transformer of \<open>map\<close> or \<open>flatMap\<close> that throws \<open>e\<close>, or returns
  a promise rejected with \<open>e\<close>, on the value of a Right gives an \<open>AsyncEither\<close>
  fulfilled with \<open>Left e\<close>. And
  \<open>AsyncEither.tryCatch(p).then(e => e.unwrapError())\<close>, for \<open>p\<close> rejected with
  \<open>e\<close>, is a promise fulfilled with \<open>e\<close>.
\<close>

theorem rejection_is_captured:
  "promise (fst (new_AsyncEither x w)) \<noteq> Rejected r
   \<and> promise (fst (AsyncEither_tryCatch p w)) \<noteq> Rejected r
   \<and> promise (fst (AsyncEither_fromPromise p w)) \<noteq> Rejected r
   \<and> new_AsyncEither (PromiseObj (Rejected e)) w = (settled (Left e), w)
   \<and> AsyncEither_tryCatch (Rejected e) w = (settled (Left e), w)
   \<and> AsyncEither_fromPromise (Rejected e) w = (settled (Left e), w)
   \<and> promise (fst (AsyncEither_map this fn w)) \<noteq> Rejected r
   \<and> promise (fst (AsyncEither_flatMap this fn w)) \<noteq> Rejected r
   \<and> promise (fst (AsyncEither_mapError this fn w)) \<noteq> Rejected r
   \<and> promise (fst (AsyncEither_recover this fn w)) \<noteq> Rejected r
   \<and> promise (fst (AsyncEither_tap this fn w)) \<noteq> Rejected r
   \<and> promise (fst (AsyncEither_tapError this fn w)) \<noteq> Rejected r
   \<and> promise (fst (AsyncEither_tapBoth this rightFn leftFn w)) \<noteq> Rejected r
   \<and> (fn v w = (Inl e, w1) \<or> fn v w = (Inr (PromiseObj (Rejected e)), w1) \<longrightarrow>
        AsyncEither_map (settled (Right v)) fn w = (settled (Left e), w1)
        \<and> AsyncEither_flatMap (settled (Right v)) fn w = (settled (Left e), w1))
   \<and> (case AsyncEither_tryCatch (Rejected e) w of
         (a, w') \<Rightarrow> AsyncEither_then a (Some unwrapError_reaction) None w') = (Fulfilled e, w)"
proof -
  have ctor: "promise (fst (new_AsyncEither x w)) \<noteq> Rejected r"
    and tc: "promise (fst (AsyncEither_tryCatch p w)) \<noteq> Rejected r"
    and fp: "promise (fst (AsyncEither_fromPromise p w)) \<noteq> Rejected r"
    by (simp_all add: AsyncEither_fromPromise_def AsyncEither_tryCatch_def new_AsyncEither_not_rejected)
  have rej: "new_AsyncEither (PromiseObj (Rejected e)) w = (settled (Left e), w)"
    "AsyncEither_tryCatch (Rejected e) w = (settled (Left e), w)"
    "AsyncEither_fromPromise (Rejected e) w = (settled (Left e), w)"
    by (simp_all add: AsyncEither_fromPromise_def AsyncEither_tryCatch_def new_AsyncEither_settles)
  have comb: "promise (fst (AsyncEither_map this fn w)) \<noteq> Rejected r"
    "promise (fst (AsyncEither_flatMap this fn w)) \<noteq> Rejected r"
    "promise (fst (AsyncEither_mapError this fn w)) \<noteq> Rejected r"
    "promise (fst (AsyncEither_recover this fn w)) \<noteq> Rejected r"
    "promise (fst (AsyncEither_tap this fn w)) \<noteq> Rejected r"
    "promise (fst (AsyncEither_tapError this fn w)) \<noteq> Rejected r"
    by (simp_all add: AsyncEither_map_def AsyncEither_flatMap_def AsyncEither_mapError_def
        AsyncEither_recover_def AsyncEither_tap_def AsyncEither_tapError_def chain_not_rejected)
  have both: "promise (fst (AsyncEither_tapBoth this rightFn leftFn w)) \<noteq> Rejected r"
    by (simp add: AsyncEither_tapBoth_def new_AsyncEither_not_rejected split: prod.splits)
  have thrown: "fn v w = (Inl e, w1) \<or> fn v w = (Inr (PromiseObj (Rejected e)), w1) \<longrightarrow>
        AsyncEither_map (settled (Right v)) fn w = (settled (Left e), w1)
        \<and> AsyncEither_flatMap (settled (Right v)) fn w = (settled (Left e), w1)"
    by (auto simp: map_Right flatMap_Right)
  have scenario: "(case AsyncEither_tryCatch (Rejected e) w of
         (a, w') \<Rightarrow> AsyncEither_then a (Some unwrapError_reaction) None w') = (Fulfilled e, w)"
    by (simp add: rej AsyncEither_then_def Promise_then_def settle_def unwrapError_reaction_def
        returns_def)
  from ctor tc fp rej comb both thrown scenario show ?thesis by simp
qed

theorem rejection_is_captured_witness:
  "AsyncEither_map (settled (Right (Num 1))) (\<lambda>v. throws (ErrorObj ''boom'')) (quiet :: unit js_world)
     = (settled (Left (ErrorObj ''boom'')), quiet)
   \<and> AsyncEither_flatMap (settled (Right (Num 1)))
        (\<lambda>v. returns (PromiseObj (Rejected (ErrorObj ''boom'')))) (quiet :: unit js_world)
     = (settled (Left (ErrorObj ''boom'')), quiet)"
  using rejection_is_captured [where fn = "\<lambda>v. throws (ErrorObj ''boom'')" and v = "Num 1"
      and w = "quiet :: unit js_world" and ?w1.0 = quiet and e = "ErrorObj ''boom''"
      and x = "Value Null" and p = Pending and this = "AsyncEither Pending" and r = Null
      and rightFn = None and leftFn = None]
    rejection_is_captured [where fn = "\<lambda>v. returns (PromiseObj (Rejected (ErrorObj ''boom'')))"
      and v = "Num 1" and w = "quiet :: unit js_world" and ?w1.0 = quiet and e = "ErrorObj ''boom''"
      and x = "Value Null" and p = Pending and this = "AsyncEither Pending" and r = Null
      and rightFn = None and leftFn = None]
  by (simp add: throws_def returns_def)

section \<open>Normalisation\<close>

text \<open>
  C10. The constructor, given a promise fulfilled with an Either, settles to that Either
  and does not wrap it; given a promise fulfilled with a value that is no Either
  instance, it settles to a Right of the value. \<open>tryCatch\<close> and \<open>fromPromise\<close> are the
  constructor, so a promise of an Either is adopted by them as well.
\<close>

theorem constructor_normalizes:
  "new_AsyncEither (PromiseObj (Fulfilled (EitherObj e))) w = (settled e, w)
   \<and> (\<not> instanceof_Either v \<longrightarrow>
        new_AsyncEither (PromiseObj (Fulfilled v)) w = (settled (Right v), w))
   \<and> AsyncEither_tryCatch (Fulfilled (EitherObj e)) w = (settled e, w)
   \<and> AsyncEither_fromPromise (Fulfilled (EitherObj e)) w = (settled e, w)
   \<and> new_AsyncEither (Value (EitherObj e)) w = (settled e, w)"
  by (simp add: AsyncEither_fromPromise_def AsyncEither_tryCatch_def new_AsyncEither_settles)

theorem constructor_normalizes_witness:
  "new_AsyncEither (PromiseObj (Fulfilled (Str ''abc''))) (quiet :: unit js_world)
     = (settled (Right (Str ''abc'')), quiet)"
  using constructor_normalizes [where v = "Str ''abc''" and w = "quiet :: unit js_world"
      and e = "Left Null"]
  by simp

text \<open>
  C4. On an \<open>AsyncEither\<close> settled to a Left, \<open>map(f)\<close> and \<open>flatMap(f)\<close> settle to the
  same Left and leave the world as it was, for every \<open>f\<close>: \<open>f\<close> is not called. On one
  settled to \<open>Right v\<close>, when \<open>f(v)\<close> returns an Either \<open>r\<close>, a promise fulfilled with
  \<open>r\<close>, or an \<open>AsyncEither\<close> settled to \<open>r\<close>, \<open>flatMap(f)\<close> settles to \<open>r\<close> itself,
  not to a Right holding it. \<open>asyncLeft(e).map(f)\<close> is the first case.
\<close>

theorem async_flatMap_normalizes:
  "AsyncEither_map (settled (Left e)) fn w = (settled (Left e), w)
   \<and> AsyncEither_flatMap (settled (Left e)) fn w = (settled (Left e), w)
   \<and> (case asyncLeft e w of (a, w') \<Rightarrow> AsyncEither_map a fn w') = (settled (left e), w)
   \<and> (fn v w = (Inr (Value (EitherObj r)), w1) \<longrightarrow>
        AsyncEither_flatMap (settled (Right v)) fn w = (settled r, w1))
   \<and> (fn v w = (Inr (PromiseObj (Fulfilled (EitherObj r))), w1) \<longrightarrow>
        AsyncEither_flatMap (settled (Right v)) fn w = (settled r, w1))
   \<and> (fn v w = (Inr (AsyncEitherObj (settled r)), w1) \<longrightarrow>
        AsyncEither_flatMap (settled (Right v)) fn w = (settled r, w1))"
  by (simp add: map_Left flatMap_Left asyncLeft_settles flatMap_Right left_def)

theorem async_flatMap_normalizes_witness:
  "AsyncEither_flatMap (settled (Right (Num 1)))
       (\<lambda>v. returns (Value (EitherObj (Left (Str ''no''))))) (quiet :: unit js_world)
     = (settled (Left (Str ''no'')), quiet)
   \<and> AsyncEither_flatMap (settled (Right (Num 1)))
       (\<lambda>v. returns (PromiseObj (Fulfilled (EitherObj (Right v))))) (quiet :: unit js_world)
     = (settled (Right (Num 1)), quiet)
   \<and> AsyncEither_flatMap (settled (Right (Num 1)))
       (\<lambda>v. returns (AsyncEitherObj (settled (Right (Str ''one''))))) (quiet :: unit js_world)
     = (settled (Right (Str ''one'')), quiet)"
  using async_flatMap_normalizes [where fn = "\<lambda>v. returns (Value (EitherObj (Left (Str ''no''))))"
      and v = "Num 1" and w = "quiet :: unit js_world" and ?w1.0 = quiet and r = "Left (Str ''no'')"
      and e = Null]
    async_flatMap_normalizes [where fn = "\<lambda>v. returns (PromiseObj (Fulfilled (EitherObj (Right v))))"
      and v = "Num 1" and w = "quiet :: unit js_world" and ?w1.0 = quiet and r = "Right (Num 1)"
      and e = Null]
    async_flatMap_normalizes [where fn = "\<lambda>v. returns (AsyncEitherObj (settled (Right (Str ''one''))))"
      and v = "Num 1" and w = "quiet :: unit js_world" and ?w1.0 = quiet and r = "Right (Str ''one'')"
      and e = Null]
  by (simp add: returns_def)

section \<open>Inspection\<close>

lemma Either_tap_returns: "fst (Either_tap x fn w) = Inr x"
  by (cases x)
    (simp_all add: and_then_def try_catch_def returns_def console_log_def console_error_def
      split: prod.splits sum.splits)

lemma Either_tapError_returns: "fst (Either_tapError x fn w) = Inr x"
  by (cases x)
    (simp_all add: and_then_def try_catch_def returns_def console_log_def console_error_def
      split: prod.splits sum.splits)

lemma Either_tapBoth_returns: "fst (Either_tapBoth x rightFn leftFn w) = Inr x"
  by (cases x)
    (simp_all add: Either_tap_returns Either_tapError_returns returns_def
      del: Either_tap.simps Either_tapError.simps split: option.splits)

lemma Either_tap_logs:
  "fn v w = (Inl err, w1) \<Longrightarrow>
   Either_tap (Right v) fn w =
     (Inr (Right v),
      w1\<lparr>console := console w1 @
             [ConsoleLog [Text ''[Either/Right] Error on tap''], ConsoleError [Caught err]]\<rparr>)"
  by (simp add: and_then_def try_catch_def returns_def console_log_def console_error_def)

lemma Either_tapError_logs:
  "fn e w = (Inl err, w1) \<Longrightarrow>
   Either_tapError (Left e) fn w =
     (Inr (Left e),
      w1\<lparr>console := console w1 @
             [ConsoleLog [Text ''[Either/Left] Error on tapError''], ConsoleError [Caught err]]\<rparr>)"
  by (simp add: and_then_def try_catch_def returns_def console_log_def console_error_def)

lemma AsyncEither_tap_keeps:
  "promise (fst (AsyncEither_tap (settled x) fn w)) = Fulfilled (EitherObj x)
   \<or> promise (fst (AsyncEither_tap (settled x) fn w)) = Pending"
  by (cases x) (simp_all add: tap_Left tap_Right split: prod.splits sum.splits promise.splits)

lemma AsyncEither_tapError_keeps:
  "promise (fst (AsyncEither_tapError (settled x) fn w)) = Fulfilled (EitherObj x)
   \<or> promise (fst (AsyncEither_tapError (settled x) fn w)) = Pending"
  by (cases x) (simp_all add: tapError_Left tapError_Right split: prod.splits sum.splits promise.splits)

lemma AsyncEither_tapBoth_keeps:
  "promise (fst (AsyncEither_tapBoth (settled x) rightFn leftFn w)) = Fulfilled (EitherObj x)
   \<or> promise (fst (AsyncEither_tapBoth (settled x) rightFn leftFn w)) = Pending"
proof (cases x)
  case (Left e)
  then show ?thesis
    using AsyncEither_tapError_keeps [of "Left e" _ w]
    by (simp add: tapBoth_Left split: option.splits)
next
  case (Right v)
  then show ?thesis
    using AsyncEither_tap_keeps [of "Right v" _ w]
    by (simp add: tapBoth_Right split: option.splits)
qed

text \<open>
  C7. \<open>tap\<close>, \<open>tapError\<close> and \<open>tapBoth\<close> return the Either they were called on and
  never throw, whatever the callback does. When the callback throws \<open>err\<close>, the method
  still returns the receiver, and the console has received the method's line and then the
  error. The \<open>AsyncEither\<close> versions settle to the Either of the receiver (or stay pending
  with a callback whose promise never settles), and a callback that throws \<open>err\<close> or returns a
  promise rejected with \<open>err\<close> leaves one \<open>console.error\<close> line and the same Either.
\<close>

theorem tap_swallows_and_logs:
  "fst (Either_tap x fn w) = Inr x
   \<and> fst (Either_tapError x efn w) = Inr x
   \<and> fst (Either_tapBoth x rightFn leftFn w) = Inr x
   \<and> (fn v w = (Inl err, w1) \<longrightarrow>
        Either_tap (Right v) fn w =
          (Inr (Right v),
           w1\<lparr>console := console w1 @
                  [ConsoleLog [Text ''[Either/Right] Error on tap''], ConsoleError [Caught err]]\<rparr>)
        \<and> Either_tapBoth (Right v) (Some fn) leftFn w = Either_tap (Right v) fn w)
   \<and> (efn e w = (Inl err, w1) \<longrightarrow>
        Either_tapError (Left e) efn w =
          (Inr (Left e),
           w1\<lparr>console := console w1 @
                  [ConsoleLog [Text ''[Either/Left] Error on tapError''], ConsoleError [Caught err]]\<rparr>)
        \<and> Either_tapBoth (Left e) rightFn (Some efn) w = Either_tapError (Left e) efn w)
   \<and> (promise (fst (AsyncEither_tap (settled ax) afn aw)) = Fulfilled (EitherObj ax)
        \<or> promise (fst (AsyncEither_tap (settled ax) afn aw)) = Pending)
   \<and> (promise (fst (AsyncEither_tapError (settled ax) afn aw)) = Fulfilled (EitherObj ax)
        \<or> promise (fst (AsyncEither_tapError (settled ax) afn aw)) = Pending)
   \<and> (promise (fst (AsyncEither_tapBoth (settled ax) arightFn aleftFn aw)) = Fulfilled (EitherObj ax)
        \<or> promise (fst (AsyncEither_tapBoth (settled ax) arightFn aleftFn aw)) = Pending)
   \<and> (afn av aw = (Inl aerr, aw1) \<or> afn av aw = (Inr (PromiseObj (Rejected aerr)), aw1) \<longrightarrow>
        AsyncEither_tap (settled (Right av)) afn aw =
          (settled (Right av),
           aw1\<lparr>console := console aw1 @
                   [ConsoleError [Text ''An error occurred at tap'', Caught aerr]]\<rparr>)
        \<and> AsyncEither_tapBoth (settled (Right av)) (Some afn) aleftFn aw
            = AsyncEither_tap (settled (Right av)) afn aw
        \<and> AsyncEither_tapError (settled (Left av)) afn aw =
          (settled (Left av),
           aw1\<lparr>console := console aw1 @
                   [ConsoleError [Text ''An error occurred at tapError'', Caught aerr]]\<rparr>)
        \<and> AsyncEither_tapBoth (settled (Left av)) arightFn (Some afn) aw
            = AsyncEither_tapError (settled (Left av)) afn aw)"
proof -
  have sync_throw: "fn v w = (Inl err, w1) \<longrightarrow>
        Either_tap (Right v) fn w =
          (Inr (Right v),
           w1\<lparr>console := console w1 @
                  [ConsoleLog [Text ''[Either/Right] Error on tap''], ConsoleError [Caught err]]\<rparr>)
        \<and> Either_tapBoth (Right v) (Some fn) leftFn w = Either_tap (Right v) fn w"
    by (auto simp del: Either_tap.simps intro: Either_tap_logs)
  have sync_throw_error: "efn e w = (Inl err, w1) \<longrightarrow>
        Either_tapError (Left e) efn w =
          (Inr (Left e),
           w1\<lparr>console := console w1 @
                  [ConsoleLog [Text ''[Either/Left] Error on tapError''], ConsoleError [Caught err]]\<rparr>)
        \<and> Either_tapBoth (Left e) rightFn (Some efn) w = Either_tapError (Left e) efn w"
    by (auto simp del: Either_tapError.simps intro: Either_tapError_logs)
  have async_throw: "afn av aw = (Inl aerr, aw1) \<or> afn av aw = (Inr (PromiseObj (Rejected aerr)), aw1) \<longrightarrow>
        AsyncEither_tap (settled (Right av)) afn aw =
          (settled (Right av),
           aw1\<lparr>console := console aw1 @
                   [ConsoleError [Text ''An error occurred at tap'', Caught aerr]]\<rparr>)
        \<and> AsyncEither_tapBoth (settled (Right av)) (Some afn) aleftFn aw
            = AsyncEither_tap (settled (Right av)) afn aw
        \<and> AsyncEither_tapError (settled (Left av)) afn aw =
          (settled (Left av),
           aw1\<lparr>console := console aw1 @
                   [ConsoleError [Text ''An error occurred at tapError'', Caught aerr]]\<rparr>)
        \<and> AsyncEither_tapBoth (settled (Left av)) arightFn (Some afn) aw
            = AsyncEither_tapError (settled (Left av)) afn aw"
    by (auto simp: tap_Right tapError_Left tapBoth_Right tapBoth_Left)
  from sync_throw sync_throw_error async_throw
    Either_tap_returns [of x fn w] Either_tapError_returns [of x efn w]
    Either_tapBoth_returns [of x rightFn leftFn w]
    AsyncEither_tap_keeps [of ax afn aw] AsyncEither_tapError_keeps [of ax afn aw]
    AsyncEither_tapBoth_keeps [of ax arightFn aleftFn aw]
  show ?thesis by blast
qed

theorem tap_swallows_and_logs_witness:
  "Either_tap (Right (1::int)) (\<lambda>v. throws ''boom'' :: (string, unit, unit) call) (quiet :: (string, unit) world) =
     (Inr (Right 1 :: (int, int) Either),
      \<lparr>console = [ConsoleLog [Text ''[Either/Right] Error on tap''], ConsoleError [Caught ''boom'']],
       state = ()\<rparr>)
   \<and> Either_tapError (Left (2::int)) (\<lambda>v. throws ''boom'' :: (string, unit, unit) call) (quiet :: (string, unit) world) =
     (Inr (Left 2 :: (int, int) Either),
      \<lparr>console = [ConsoleLog [Text ''[Either/Left] Error on tapError''], ConsoleError [Caught ''boom'']],
       state = ()\<rparr>)
   \<and> AsyncEither_tap (settled (Right (Num 3))) (\<lambda>v. throws (ErrorObj ''boom'')) (quiet :: unit js_world) =
     (settled (Right (Num 3)),
      \<lparr>console = [ConsoleError [Text ''An error occurred at tap'', Caught (ErrorObj ''boom'')]],
       state = ()\<rparr>)
   \<and> AsyncEither_tapError (settled (Left (Num 3))) (\<lambda>v. throws (ErrorObj ''boom'')) (quiet :: unit js_world) =
     (settled (Left (Num 3)),
      \<lparr>console = [ConsoleError [Text ''An error occurred at tapError'', Caught (ErrorObj ''boom'')]],
       state = ()\<rparr>)"
  using tap_swallows_and_logs [where fn = "\<lambda>v. throws ''boom'' :: (string, unit, unit) call"
      and efn = "\<lambda>v. throws ''boom'' :: (string, unit, unit) call"
      and v = "1::int" and e = "2::int" and w = "quiet :: (string, unit) world"
      and ?w1.0 = quiet and err = "''boom''" and x = "Right 1" and rightFn = None and leftFn = None
      and afn = "\<lambda>v. throws (ErrorObj ''boom'')" and av = "Num 3" and aw = "quiet :: unit js_world"
      and ?aw1.0 = quiet and aerr = "ErrorObj ''boom''" and ax = "Right (Num 3)"
      and arightFn = None and aleftFn = None]
  by (simp add: throws_def quiet_def del: Either_tap.simps Either_tapError.simps) blast

section \<open>Defaults\<close>

text \<open>
  C8. \<open>getOrElse\<close> and \<open>getErrorOrElse\<close> have no failing branch: \<open>right(v).getOrElse(d)\<close>
  is \<open>v\<close>, \<open>left(e).getOrElse(d)\<close> is \<open>d\<close>, \<open>left(e).getErrorOrElse(d)\<close> is \<open>e\<close> and
  \<open>right(v).getErrorOrElse(d)\<close> is \<open>d\<close>. The \<open>AsyncEither\<close> versions return a promise
  fulfilled with the payload when the receiver has settled to the side asked for, with the
  world as it was for every default, so a producer is not called there; on the other side they
  are fulfilled with a default that is a value, and resolved with the call of a default that
  is a function.
\<close>

theorem getOrElse_contract:
  "Either_getOrElse (right v) d = v
   \<and> Either_getOrElse (left e) d = d
   \<and> Either_getErrorOrElse (left e) d' = e
   \<and> Either_getErrorOrElse (right v) d' = d'
   \<and> AsyncEither_getOrElse (settled (Right a)) dflt w = (Fulfilled a, w)
   \<and> AsyncEither_getOrElse (settled (Left b)) (NotFunction c) w = (Fulfilled c, w)
   \<and> AsyncEither_getOrElse (settled (Left b)) (Function f) w = settle f w
   \<and> AsyncEither_getErrorOrElse (settled (Left b)) dflt w = (Fulfilled b, w)
   \<and> AsyncEither_getErrorOrElse (settled (Right a)) (NotFunction c) w = (Fulfilled c, w)
   \<and> AsyncEither_getErrorOrElse (settled (Right a)) (Function f) w = settle f w"
  by (simp add: left_def right_def AsyncEither_getOrElse_def AsyncEither_getErrorOrElse_def
      body_defs settle_def split: prod.splits sum.splits)

section \<open>New instances and the receiver\<close>















end
